theory Spec2Isabelle
  imports Main
begin

section \<open>Strings of the page\<close>

text \<open>
  The page works on JavaScript strings. They are modelled as \<^typ>\<open>string\<close>, each
  character read as one code unit below 256. \<open>String.prototype.trim\<close> removes the
  white space and line terminators of ECMAScript from both ends; the ones below 256 are
  TAB, LF, VT, FF, CR, SPACE and NBSP.
\<close>

definition is_ws :: "char \<Rightarrow> bool" where
  "is_ws c = (c = CHR 0x09 \<or> c = CHR 0x0A \<or> c = CHR 0x0B \<or> c = CHR 0x0C
              \<or> c = CHR 0x0D \<or> c = CHR 0x20 \<or> c = CHR 0xA0)"

definition trim :: "string \<Rightarrow> string" where
  "trim s = rev (dropWhile is_ws (rev (dropWhile is_ws s)))"

section \<open>Context assembly: the loop of handleSearch\<close>

text \<open>
  A row returned by the \<open>match_documents\<close> procedure. The loop reads its \<open>content\<close>
  and its \<open>token\<close> count. The rows are the ones the dataset form inserts, with a string
  as \<open>content\<close> and a number as \<open>token\<close>; rows lacking either field are outside the
  model. Token counts are JavaScript numbers holding integers; they are modelled as
  unbounded \<^typ>\<open>int\<close>.
\<close>

record document =
  content :: string
  token :: int

text \<open>What one iteration appends: \<^verbatim>\<open>`${content.trim()}\n--\n`\<close>.\<close>

definition piece :: "document \<Rightarrow> string" where
  "piece d = trim (content d) @ ''\<newline>--\<newline>''"

text \<open>
  \<^verbatim>\<open>
  for (let i = 0; i < documents?.length; i++) {
    const document = documents[i];
    const content = document?.content;
    tokenCount += document?.token;
    if (tokenCount > 1500) { break; }
    contextText += `${content.trim()}\n--\n`;
  }
  \<close>
  The loop state is \<open>(i, tokenCount, contextText)\<close>; the function returns the state in
  which the loop is left. The bound, 1500 in the source, is the parameter \<open>B\<close>.
\<close>

function assemble_loop :: "int \<Rightarrow> document list \<Rightarrow> nat \<Rightarrow> int \<Rightarrow> string \<Rightarrow> nat \<times> int \<times> string" where
  "assemble_loop B documents i tokenCount contextText =
     (if i < length documents then
        (let d = documents ! i;
             tokenCount' = tokenCount + token d
         in if tokenCount' > B then (i, tokenCount', contextText)
            else assemble_loop B documents (i + 1) tokenCount' (contextText @ piece d))
      else (i, tokenCount, contextText))"
  by pat_completeness auto
termination
  by (relation "measure (\<lambda>(B, documents, i, tokenCount, contextText). length documents - i)") auto

declare assemble_loop.simps [simp del]

text \<open>\<^verbatim>\<open>let tokenCount = 0; let contextText = "";\<close> and then the loop from \<open>i = 0\<close>.\<close>

definition assemble :: "int \<Rightarrow> document list \<Rightarrow> nat \<times> int \<times> string" where
  "assemble B documents = assemble_loop B documents 0 0 []"

text \<open>The token counts of the first \<open>k\<close> rows, added up.\<close>

definition tokens_upto :: "document list \<Rightarrow> nat \<Rightarrow> int" where
  "tokens_upto documents k = sum_list (map token (take k documents))"

text \<open>The text of the first \<open>k\<close> rows, each trimmed and followed by the separator.\<close>

definition context_upto :: "document list \<Rightarrow> nat \<Rightarrow> string" where
  "context_upto documents k = concat (map piece (take k documents))"

section \<open>Prompt rendering: generatePrompt\<close>

text \<open>
  The template tags \<open>oneLine\<close> and \<open>stripIndent\<close> come from the package
  \<open>common-tags\<close>. Each is a chain of transformers applied to the text of the template
  after the substitutions are in place.

  \<open>oneLine\<close>: \<^verbatim>\<open>endResult.replace(/(?:\n(?:\s*))+/g, ' ')\<close>, then \<^verbatim>\<open>trim()\<close>. A line feed
  and all the white space after it become one space.
\<close>

function replace_newline_runs :: "string \<Rightarrow> string" where
  "replace_newline_runs [] = []"
| "replace_newline_runs (c # cs) =
     (if c = CHR 0x0A then CHR 0x20 # replace_newline_runs (dropWhile is_ws cs)
      else c # replace_newline_runs cs)"
  by pat_completeness auto
termination
  by (relation "measure length") (auto simp: less_Suc_eq_le length_dropWhile_le)

definition oneLine :: "string \<Rightarrow> string" where
  "oneLine s = trim (replace_newline_runs s)"

text \<open>
  \<open>stripIndent\<close>:
  \<^verbatim>\<open>
  const match = endResult.match(/^[^\S\n]*(?=\S)/gm);
  const indent = match && Math.min(...match.map(el => el.length));
  if (indent) {
    const regexp = new RegExp(`^.{${indent}}`, 'gm');
    return endResult.replace(regexp, '');
  }
  return endResult;
  \<close>
  and then \<^verbatim>\<open>trim()\<close>. With the flag \<open>m\<close>, \<open>^\<close> holds at the start of the text and after
  a line terminator; \<open>.\<close> is any character but a line terminator; \<open>[^\S\n]\<close> is white
  space other than the line feed.
\<close>

definition is_line_terminator :: "char \<Rightarrow> bool" where
  "is_line_terminator c = (c = CHR 0x0A \<or> c = CHR 0x0D)"

definition is_indent_char :: "char \<Rightarrow> bool" where
  "is_indent_char c = (is_ws c \<and> c \<noteq> CHR 0x0A)"

text \<open>
  The lengths of the matches of \<^verbatim>\<open>/^[^\S\n]*(?=\S)/gm\<close>, scanning from left to right.
  \<open>bol\<close> says whether \<open>^\<close> holds at the current position. After an empty match the
  scan moves on by one character, after any other match it resumes where the match ended.
\<close>

function indent_matches :: "bool \<Rightarrow> string \<Rightarrow> nat list" where
  "indent_matches bol [] = []"
| "indent_matches bol (c # cs) =
     (if bol then
        (let run = takeWhile is_indent_char (c # cs);
             rest = dropWhile is_indent_char (c # cs)
         in if rest \<noteq> [] \<and> \<not> is_ws (hd rest) then
              (if run = [] then 0 # indent_matches (is_line_terminator c) cs
               else length run # indent_matches (is_line_terminator (last run)) rest)
            else indent_matches (is_line_terminator c) cs)
      else indent_matches (is_line_terminator c) cs)"
  by pat_completeness auto
termination
  by (relation "measure (\<lambda>(bol, s). length s)")
    (auto simp: less_Suc_eq_le length_dropWhile_le split: if_splits)

text \<open>\<^verbatim>\<open>endResult.replace(/^.{n}/gm, '')\<close>: the first \<open>n\<close> characters of each line that has them.\<close>

function strip_columns :: "nat \<Rightarrow> bool \<Rightarrow> string \<Rightarrow> string" where
  "strip_columns n bol [] = []"
| "strip_columns n bol (c # cs) =
     (if bol \<and> 0 < n \<and> n \<le> length (takeWhile (\<lambda>x. \<not> is_line_terminator x) (c # cs))
      then strip_columns n False (drop n (c # cs))
      else c # strip_columns n (is_line_terminator c) cs)"
  by pat_completeness auto
termination
  by (relation "measure (\<lambda>(n, bol, s). length s)") auto

definition stripIndent :: "string \<Rightarrow> string" where
  "stripIndent endResult =
     trim (let match = indent_matches True endResult;
               indent = (if match = [] then 0 else Min (set match))
           in if indent \<noteq> 0 then strip_columns indent True endResult else endResult)"

text \<open>The text between the back quotes of the inner, \<open>oneLine\<close> template.\<close>

definition persona_template :: string where
  \<open>persona_template =
     ''\<newline>    You are a very enthusiastic Dream interpreting expert who loves\<newline>    to help people! Given the following sections from the Dream\<newline>    documentation or make up something people can relate, answer the question using only that information,\<newline>    outputted in markdown format. \<newline>''
     @ [CHR 0x09]\<close>

text \<open>
  \<^verbatim>\<open>
  const prompt = stripIndent`${oneLine`...`}

    Context sections:
    ${contextText}

    Question: """
    ${searchText}
    """

    Answer as markdown (including related code snippets if available):
  `;
  \<close>
\<close>

definition generatePrompt :: "string \<Rightarrow> string \<Rightarrow> string" where
  \<open>generatePrompt contextText searchText =
     stripIndent (oneLine persona_template
       @ ''\<newline>\<newline>    Context sections:\<newline>    '' @ contextText
       @ ''\<newline>\<newline>    Question: """\<newline>    '' @ searchText
       @ ''\<newline>    """\<newline>\<newline>    Answer as markdown (including related code snippets if available):\<newline>  '')\<close>

section \<open>The page: handleSearch and generateAnswer\<close>

text \<open>
  What \<open>fetch\<close> gives back: the promise is rejected, or it resolves to a response with a
  status and a body. The body is the value read by \<open>res.json()\<close>.
\<close>

datatype 'b fetch_result = Rejected | Response nat 'b

text \<open>
  The backends of one turn. \<open>post_embedding\<close> is the route \<open>/embedding\<close>, its body
  read as \<open>data?.embedding?.values\<close> (absent: \<open>None\<close>); \<open>rpc_match_documents\<close> is the
  procedure \<open>match_documents\<close>, called with threshold 0.2 and count 1, whose \<open>data\<close> is
  the row list or null; \<open>post_chat\<close> is the route \<open>/chat\<close>, its body read as
  \<open>data.choices\<close>.
\<close>

record 'v backend =
  post_embedding :: "string \<Rightarrow> 'v option fetch_result"
  rpc_match_documents :: "'v option \<Rightarrow> document list option"
  post_chat :: "string \<Rightarrow> string fetch_result"

text \<open>The requests a turn sends, in order.\<close>

datatype 'v call = PostEmbedding string | RpcMatchDocuments "'v option" | PostChat string

record toast_msg =
  title :: string
  description :: string

text \<open>
  The state of the component: the two \<open>useState\<close> lists, the loading flag, the value
  of the input field, the toasts shown and the requests sent.
\<close>

record 'v page =
  questions :: "string list"
  answers :: "string list"
  loading :: bool
  inputValue :: string
  toasts :: "toast_msg list"
  calls :: "'v call list"

text \<open>How an \<open>async\<close> function ends: its promise is fulfilled, or rejected by a throw.\<close>

datatype outcome = Fulfilled | Thrown

text \<open>\<open>toastError()\<close> with its default message.\<close>

definition toastError :: "'v page \<Rightarrow> 'v page" where
  "toastError s = s\<lparr>toasts := toasts s @
     [\<lparr>title = ''Fail to create embedding'', description = ''Something went wrong''\<rparr>]\<rparr>"

definition generateAnswer :: "'v backend \<Rightarrow> string \<Rightarrow> 'v page \<Rightarrow> 'v page \<times> outcome" where
  "generateAnswer env prompt s =
     (let s1 = s\<lparr>calls := calls s @ [PostChat prompt]\<rparr>
      in case post_chat env prompt of
           Rejected \<Rightarrow> (s1, Thrown)
         | Response status choices \<Rightarrow>
             if status \<noteq> 200 then (toastError s1, Fulfilled)
             else (s1\<lparr>answers := answers s1 @ [choices]\<rparr>, Fulfilled))"

text \<open>\<^verbatim>\<open>searchText.replace(/\n/g, " ")\<close>\<close>

definition replace_newlines :: "string \<Rightarrow> string" where
  "replace_newlines s = map (\<lambda>c. if c = CHR 0x0A then CHR 0x20 else c) s"

text \<open>The loop over \<open>documents\<close>; when \<open>documents\<close> is null the loop body never runs.\<close>

definition assemble_documents :: "document list option \<Rightarrow> nat \<times> int \<times> string" where
  "assemble_documents documents =
     (case documents of None \<Rightarrow> (0, 0, []) | Some ds \<Rightarrow> assemble 1500 ds)"

text \<open>The two last statements of \<open>handleSearch\<close>.\<close>

definition finish :: "'v page \<Rightarrow> 'v page" where
  "finish s = s\<lparr>inputValue := [], loading := False\<rparr>"

definition handleSearch :: "'v backend \<Rightarrow> 'v page \<Rightarrow> 'v page \<times> outcome" where
  "handleSearch env s =
     (let s1 = s\<lparr>loading := True\<rparr>;
          searchText = inputValue s1
      in if searchText \<noteq> [] \<and> trim searchText \<noteq> [] then
           (let s2 = s1\<lparr>questions := questions s1 @ [searchText]\<rparr>;
                text = replace_newlines searchText;
                s3 = s2\<lparr>calls := calls s2 @ [PostEmbedding text]\<rparr>
            in case post_embedding env text of
                 Rejected \<Rightarrow> (s3, Thrown)
               | Response status data \<Rightarrow>
                   if status \<noteq> 200 then (finish (toastError s3), Fulfilled)
                   else
                     (let s4 = s3\<lparr>calls := calls s3 @ [RpcMatchDocuments data]\<rparr>;
                          documents = rpc_match_documents env data;
                          (i, tokenCount, contextText) = assemble_documents documents;
                          prompt = generatePrompt contextText searchText
                      in case generateAnswer env prompt s4 of
                           (s5, Thrown) \<Rightarrow> (s5, Thrown)
                         | (s5, Fulfilled) \<Rightarrow> (finish s5, Fulfilled)))
         else (finish s1, Fulfilled))"

section \<open>The route /embedding\<close>

text \<open>
  The generative-AI client: \<open>countTokens\<close> and \<open>embedContent\<close> of the model with the
  given name, on a text; \<open>None\<close> when the call throws. The vector type is left open.
\<close>

record 'v gen_ai =
  countTokens :: "string \<Rightarrow> string \<Rightarrow> nat option"
  embedContent :: "string \<Rightarrow> string \<Rightarrow> 'v option"

text \<open>The calls the route makes on the client: the name of the model and the text.\<close>

datatype sdk_call = CountTokens string string | EmbedContent string string

fun call_model :: "sdk_call \<Rightarrow> string" where
  "call_model (CountTokens m t) = m"
| "call_model (EmbedContent m t) = m"

datatype 'v embedding_body = Message string | TokenEmbedding nat 'v

text \<open>
  \<^verbatim>\<open>
  if (!data) return NextResponse.json({ message: "Unauthorize" }, { status: 403 });
  const request = await req.json();
  if (!request?.text) return NextResponse.json({ message: ... }, { status: 422 });
  try {
    const geminiPro = genAI.getGenerativeModel({ model: "gemini-pro" });
    const model = genAI.getGenerativeModel({ model: "embedding-001" });
    const { totalTokens: token } = await geminiPro.countTokens(request.text);
    const { embedding } = await model.embedContent(request.text);
    return NextResponse.json({ token, embedding });
  } catch (error) { return NextResponse.json({ message: ... }, { status: 500 }); }
  \<close>
  The result is the status, the body and the calls made on the client.
\<close>

definition embedding_POST ::
  "'v gen_ai \<Rightarrow> 'u option \<Rightarrow> string option \<Rightarrow> nat \<times> 'v embedding_body \<times> sdk_call list" where
  "embedding_POST genAI data request_text =
     (if data = None then (403, Message ''Unauthorize'', [])
      else case request_text of
             None \<Rightarrow> (422, Message ''Invalid request missing key.'', [])
           | Some text \<Rightarrow>
               if text = [] then (422, Message ''Invalid request missing key.'', [])
               else
                 (case countTokens genAI ''gemini-pro'' text of
                    None \<Rightarrow> (500, Message ''Something went wrong'', [CountTokens ''gemini-pro'' text])
                  | Some totalTokens \<Rightarrow>
                      (case embedContent genAI ''embedding-001'' text of
                         None \<Rightarrow> (500, Message ''Something went wrong'',
                                   [CountTokens ''gemini-pro'' text, EmbedContent ''embedding-001'' text])
                       | Some embedding \<Rightarrow> (200, TokenEmbedding totalTokens embedding,
                                   [CountTokens ''gemini-pro'' text, EmbedContent ''embedding-001'' text]))))"

text \<open>All the calls of a request went to one model.\<close>

definition same_model :: "sdk_call list \<Rightarrow> bool" where
  "same_model cs = (length (remdups (map call_model cs)) \<le> 1)"

section \<open>Properties of the loop\<close>

lemma tokens_upto_Suc:
  "i < length documents \<Longrightarrow> tokens_upto documents (Suc i) = tokens_upto documents i + token (documents ! i)"
  by (simp add: tokens_upto_def take_Suc_conv_app_nth)

lemma context_upto_Suc:
  "i < length documents \<Longrightarrow> context_upto documents (Suc i) = context_upto documents i @ piece (documents ! i)"
  by (simp add: context_upto_def take_Suc_conv_app_nth)

text \<open>
  The invariant of the loop, carried from any state that describes a prefix to the state
  in which the loop is left.
\<close>

lemma assemble_loop_inv:
  assumes "assemble_loop B documents i tokenCount contextText = (k, t, c)"
    and "i \<le> length documents"
    and "tokenCount = tokens_upto documents i"
    and "contextText = context_upto documents i"
    and "\<forall>j < i. tokens_upto documents (Suc j) \<le> B"
  shows "i \<le> k \<and> k \<le> length documents \<and> c = context_upto documents k
         \<and> (\<forall>j < k. tokens_upto documents (Suc j) \<le> B)
         \<and> (if k < length documents
             then t = tokens_upto documents (Suc k) \<and> B < t
             else t = tokens_upto documents k)"
  using assms
proof (induction B documents i tokenCount contextText rule: assemble_loop.induct)
  case (1 B documents i tokenCount contextText)
  show ?case
  proof (cases "i < length documents")
    case False
    with "1.prems" show ?thesis
      by (auto simp add: assemble_loop.simps [of B documents i])
  next
    case True
    show ?thesis
    proof (cases "B < tokenCount + token (documents ! i)")
      case True
      with \<open>i < length documents\<close> "1.prems" show ?thesis
        by (auto simp add: assemble_loop.simps [of B documents i] tokens_upto_Suc)
    next
      case False
      from False \<open>i < length documents\<close> "1.prems"(1)
      have run: "assemble_loop B documents (i + 1) (tokenCount + token (documents ! i))
                   (contextText @ piece (documents ! i)) = (k, t, c)"
        by (simp add: assemble_loop.simps [of B documents i] Let_def)
      have le: "\<forall>j < i + 1. tokens_upto documents (Suc j) \<le> B"
      proof (intro allI impI)
        fix j assume "j < i + 1"
        then consider "j < i" | "j = i" by linarith
        then show "tokens_upto documents (Suc j) \<le> B"
        proof cases
          case 1
          with "1.prems"(5) show ?thesis by simp
        next
          case 2
          with False \<open>i < length documents\<close> "1.prems"(3) show ?thesis
            by (simp add: tokens_upto_Suc)
        qed
      qed
      have "i + 1 \<le> k \<and> k \<le> length documents \<and> c = context_upto documents k
         \<and> (\<forall>j < k. tokens_upto documents (Suc j) \<le> B)
         \<and> (if k < length documents
             then t = tokens_upto documents (Suc k) \<and> B < t
             else t = tokens_upto documents k)"
      proof (rule "1.IH" [OF \<open>i < length documents\<close> refl refl False run])
        show "i + 1 \<le> length documents" using \<open>i < length documents\<close> by simp
        show "tokenCount + token (documents ! i) = tokens_upto documents (i + 1)"
          using \<open>i < length documents\<close> "1.prems"(3) by (simp add: tokens_upto_Suc)
        show "contextText @ piece (documents ! i) = context_upto documents (i + 1)"
          using \<open>i < length documents\<close> "1.prems"(4) by (simp add: context_upto_Suc)
        show "\<forall>j < i + 1. tokens_upto documents (Suc j) \<le> B" by (rule le)
      qed
      then show ?thesis by (auto split: if_splits)
    qed
  qed
qed

lemma assemble_inv:
  assumes "assemble B documents = (k, t, c)"
  shows "k \<le> length documents \<and> c = context_upto documents k
         \<and> (\<forall>j < k. tokens_upto documents (Suc j) \<le> B)
         \<and> (if k < length documents
             then t = tokens_upto documents (Suc k) \<and> B < t
             else t = tokens_upto documents k)"
proof -
  have "0 \<le> k \<and> k \<le> length documents \<and> c = context_upto documents k
         \<and> (\<forall>j < k. tokens_upto documents (Suc j) \<le> B)
         \<and> (if k < length documents
             then t = tokens_upto documents (Suc k) \<and> B < t
             else t = tokens_upto documents k)"
    by (rule assemble_loop_inv [OF assms [unfolded assemble_def]])
      (simp_all add: tokens_upto_def context_upto_def)
  then show ?thesis by (auto split: if_splits)
qed

section \<open>Properties of the string functions\<close>

lemma trim_all_ws: "\<forall>c \<in> set s. is_ws c \<Longrightarrow> trim s = []"
proof -
  assume "\<forall>c \<in> set s. is_ws c"
  then have "dropWhile is_ws s = []" by (induction s) auto
  then show ?thesis by (simp only: trim_def rev.simps dropWhile.simps)
qed

lemma trim_framed:
  assumes "\<not> is_ws x" and "\<not> is_ws y" and "\<forall>c \<in> set w. is_ws c"
  shows "trim (x # m @ y # w) = x # m @ [y]"
proof -
  have "dropWhile is_ws (rev w @ y # rev m @ [x]) = y # rev m @ [x]"
    using assms(2,3) by (simp add: dropWhile_append)
  with assms(1) show ?thesis by (simp add: trim_def)
qed

lemma indent_matches_head:
  "\<not> is_ws c \<Longrightarrow> indent_matches True (c # cs) = 0 # indent_matches (is_line_terminator c) cs"
  by (simp add: is_indent_char_def)

lemma stripIndent_head:
  assumes "\<not> is_ws c"
  shows "stripIndent (c # cs) = trim (c # cs)"
proof -
  have "0 \<in> set (indent_matches True (c # cs))"
    using assms by (simp add: indent_matches_head del: indent_matches.simps)
  then have "Min (set (indent_matches True (c # cs))) = 0"
    by (simp add: Min_eqI)
  then show ?thesis
    by (simp add: stripIndent_def Let_def del: indent_matches.simps)
qed

lemma oneLine_persona:
  "oneLine persona_template =
     ''You are a very enthusiastic Dream interpreting expert who loves to help people! Given the following sections from the Dream documentation or make up something people can relate, answer the question using only that information, outputted in markdown format.''"
  by code_simp

lemma generatePrompt_layout:
  \<open>generatePrompt contextText searchText =
     oneLine persona_template
       @ ''\<newline>\<newline>    Context sections:\<newline>    '' @ contextText
       @ ''\<newline>\<newline>    Question: """\<newline>    '' @ searchText
       @ ''\<newline>    """\<newline>\<newline>    Answer as markdown (including related code snippets if available):''\<close>
proof -
  obtain p where p: "oneLine persona_template = CHR ''Y'' # p"
    by (simp add: oneLine_persona)
  let ?m = \<open>p @ ''\<newline>\<newline>    Context sections:\<newline>    '' @ contextText
       @ ''\<newline>\<newline>    Question: """\<newline>    '' @ searchText
       @ ''\<newline>    """\<newline>\<newline>    Answer as markdown (including related code snippets if available)''\<close>
  have "generatePrompt contextText searchText = stripIndent (CHR ''Y'' # ?m @ CHR '':'' # ''\<newline>  '')"
    by (simp add: generatePrompt_def p)
  also have "\<dots> = trim (CHR ''Y'' # ?m @ CHR '':'' # ''\<newline>  '')"
    by (rule stripIndent_head) (simp add: is_ws_def)
  also have "\<dots> = CHR ''Y'' # ?m @ [CHR '':'']"
    by (rule trim_framed) (simp_all add: is_ws_def)
  finally show ?thesis by (simp add: p)
qed

section \<open>Properties of the page\<close>

lemma trim_Nil: "trim [] = []"
  by (simp add: trim_def)

lemma generateAnswer_calls: "calls (fst (generateAnswer env p s)) = calls s @ [PostChat p]"
  by (simp add: generateAnswer_def Let_def toastError_def split: fetch_result.splits)

lemma generateAnswer_failed:
  "post_chat env p = Response status body \<Longrightarrow> status \<noteq> 200 \<Longrightarrow>
   generateAnswer env p s = (toastError (s\<lparr>calls := calls s @ [PostChat p]\<rparr>), Fulfilled)"
  by (simp add: generateAnswer_def Let_def)

lemma generateAnswer_ok:
  "post_chat env p = Response 200 a \<Longrightarrow>
   generateAnswer env p s = (s\<lparr>calls := calls s @ [PostChat p], answers := answers s @ [a]\<rparr>, Fulfilled)"
  by (simp add: generateAnswer_def Let_def)

lemma handleSearch_blank:
  assumes "\<forall>c \<in> set (inputValue s). is_ws c"
  shows "handleSearch env s = (s\<lparr>inputValue := [], loading := False\<rparr>, Fulfilled)"
proof -
  have "trim (inputValue s) = []" using assms by (rule trim_all_ws)
  then show ?thesis by (simp add: handleSearch_def Let_def finish_def)
qed

lemma handleSearch_embedding_failed:
  assumes "inputValue s = q" and "trim q \<noteq> []"
    and "post_embedding env (replace_newlines q) = Response status body" and "status \<noteq> 200"
  shows "handleSearch env s =
     (s\<lparr>questions := questions s @ [q], loading := False, inputValue := [],
        toasts := toasts s @ [\<lparr>title = ''Fail to create embedding'', description = ''Something went wrong''\<rparr>],
        calls := calls s @ [PostEmbedding (replace_newlines q)]\<rparr>, Fulfilled)"
proof -
  from assms(2) have "q \<noteq> []" by (auto simp: trim_Nil)
  with assms show ?thesis
    by (simp add: handleSearch_def Let_def finish_def toastError_def)
qed

lemma handleSearch_embedded:
  assumes "inputValue s = q" and "trim q \<noteq> []"
    and "post_embedding env (replace_newlines q) = Response 200 v"
  shows "handleSearch env s =
     (case generateAnswer env
             (generatePrompt (snd (snd (assemble_documents (rpc_match_documents env v)))) q)
             (s\<lparr>loading := True, questions := questions s @ [q],
                calls := calls s @ [PostEmbedding (replace_newlines q), RpcMatchDocuments v]\<rparr>) of
        (s5, Thrown) \<Rightarrow> (s5, Thrown)
      | (s5, Fulfilled) \<Rightarrow> (finish s5, Fulfilled))"
proof -
  from assms(2) have "q \<noteq> []" by (auto simp: trim_Nil)
  with assms show ?thesis
    by (simp add: handleSearch_def Let_def split: prod.splits)
qed

lemma handleSearch_embedded_calls:
  assumes "inputValue s = q" and "trim q \<noteq> []"
    and "post_embedding env (replace_newlines q) = Response 200 v"
  shows "calls (fst (handleSearch env s)) =
     calls s @ [PostEmbedding (replace_newlines q), RpcMatchDocuments v,
       PostChat (generatePrompt (snd (snd (assemble_documents (rpc_match_documents env v)))) q)]"
proof -
  let ?p = "generatePrompt (snd (snd (assemble_documents (rpc_match_documents env v)))) q"
  let ?s4 = "s\<lparr>loading := True, questions := questions s @ [q],
                calls := calls s @ [PostEmbedding (replace_newlines q), RpcMatchDocuments v]\<rparr>"
  obtain s5 r where g: "generateAnswer env ?p ?s4 = (s5, r)" by (cases "generateAnswer env ?p ?s4")
  have "calls s5 = calls ?s4 @ [PostChat ?p]"
    using generateAnswer_calls [of env ?p ?s4] g by simp
  then show ?thesis
    using handleSearch_embedded [OF assms] g by (cases r) (simp_all add: finish_def)
qed

lemma handleSearch_generation_failed:
  assumes "inputValue s = q" and "trim q \<noteq> []"
    and "post_embedding env (replace_newlines q) = Response 200 v"
    and "post_chat env (generatePrompt (snd (snd (assemble_documents (rpc_match_documents env v)))) q)
           = Response status body"
    and "status \<noteq> 200"
  shows "handleSearch env s =
     (s\<lparr>questions := questions s @ [q], loading := False, inputValue := [],
        toasts := toasts s @ [\<lparr>title = ''Fail to create embedding'', description = ''Something went wrong''\<rparr>],
        calls := calls s @ [PostEmbedding (replace_newlines q), RpcMatchDocuments v,
          PostChat (generatePrompt (snd (snd (assemble_documents (rpc_match_documents env v)))) q)]\<rparr>,
      Fulfilled)"
  using handleSearch_embedded [OF assms(1,2,3)] generateAnswer_failed [OF assms(4,5)]
  by (simp add: finish_def toastError_def)

lemma handleSearch_generated:
  assumes "inputValue s = q" and "trim q \<noteq> []"
    and "post_embedding env (replace_newlines q) = Response 200 v"
    and "post_chat env (generatePrompt (snd (snd (assemble_documents (rpc_match_documents env v)))) q)
           = Response 200 a"
  shows "handleSearch env s =
     (s\<lparr>questions := questions s @ [q], answers := answers s @ [a], loading := False, inputValue := [],
        calls := calls s @ [PostEmbedding (replace_newlines q), RpcMatchDocuments v,
          PostChat (generatePrompt (snd (snd (assemble_documents (rpc_match_documents env v)))) q)]\<rparr>,
      Fulfilled)"
  using handleSearch_embedded [OF assms(1,2,3)] generateAnswer_ok [OF assms(4)]
  by (simp add: finish_def)

lemma assemble_first_too_big:
  assumes "documents \<noteq> []" and "B < token (hd documents)"
  shows "assemble B documents = (0, token (hd documents), [])"
  using assms by (cases documents) (simp_all add: assemble_def assemble_loop.simps [of _ _ 0])

lemma assemble_Nil: "assemble B [] = (0, 0, [])"
  by (simp add: assemble_def assemble_loop.simps)

section \<open>The claims\<close>

text \<open>
  Claim C1, token budget. The accumulator \<open>tokenCount\<close> is increased before it is
  compared with the budget, so it is left above the budget whenever the loop breaks: with
  one row of 2000 tokens and the budget 1500 it ends at 2000.
\<close>

theorem token_budget_accumulator_counterexample:
  "\<not> (fst (snd (assemble 1500 [\<lparr>content = ''x'', token = 2000\<rparr>])) \<le> 1500)"
  by code_simp

text \<open>
  Claim C1 as amended. If the loop is left with index \<open>k\<close>, the context is the text of
  the first \<open>k\<close> rows and nothing else, and the token counts of these rows add up to at
  most the budget (to 0 when no row was taken). So the rows that reach the prompt never
  exceed a budget \<open>B \<ge> 0\<close>, 1500 on the page. The accumulator itself is the total of
  the rows taken when the loop runs to the end of the list; when the loop breaks, at a
  row \<open>k\<close> of the list, it also counts that rejected row and is above the budget.
\<close>

theorem token_budget_included:
  assumes "assemble B documents = (k, t, c)"
  shows "k \<le> length documents \<and> c = context_upto documents k
     \<and> tokens_upto documents k \<le> max 0 B
     \<and> (if k < length documents
         then t = tokens_upto documents k + token (documents ! k) \<and> B < t
         else t = tokens_upto documents k)"
proof -
  note inv = assemble_inv [OF assms]
  have included: "tokens_upto documents k \<le> max 0 B"
  proof (cases k)
    case 0
    then show ?thesis by (simp add: tokens_upto_def)
  next
    case (Suc j)
    with inv have "tokens_upto documents (Suc j) \<le> B" by simp
    with Suc show ?thesis by simp
  qed
  have accumulator: "if k < length documents
         then t = tokens_upto documents k + token (documents ! k) \<and> B < t
         else t = tokens_upto documents k"
  proof (cases "k < length documents")
    case True
    with inv have "t = tokens_upto documents (Suc k) \<and> B < t" by simp
    with True show ?thesis by (simp add: tokens_upto_Suc)
  next
    case False
    with inv show ?thesis by simp
  qed
  from inv included accumulator show ?thesis by blast
qed

text \<open>
  An instance of claim C1 in which the loop breaks: the first row is taken, the second
  is rejected, and the accumulator ends at 2008.
\<close>

theorem token_budget_included_witness:
  "assemble 1500 [\<lparr>content = ''Paris is the capital of France.'', token = 8\<rparr>,
                  \<lparr>content = ''a long passage'', token = 2000\<rparr>]
     = (1, 2008, ''Paris is the capital of France.\<newline>--\<newline>'')
   \<and> ''Paris is the capital of France.\<newline>--\<newline>''
     = context_upto [\<lparr>content = ''Paris is the capital of France.'', token = 8\<rparr>,
                     \<lparr>content = ''a long passage'', token = 2000\<rparr>] 1
   \<and> tokens_upto [\<lparr>content = ''Paris is the capital of France.'', token = 8\<rparr>,
                   \<lparr>content = ''a long passage'', token = 2000\<rparr>] 1 \<le> max 0 1500
   \<and> (2008::int) = tokens_upto [\<lparr>content = ''Paris is the capital of France.'', token = 8\<rparr>,
                   \<lparr>content = ''a long passage'', token = 2000\<rparr>] 1
          + token ([\<lparr>content = ''Paris is the capital of France.'', token = 8\<rparr>,
                   \<lparr>content = ''a long passage'', token = 2000\<rparr>] ! 1)
   \<and> (1500::int) < 2008"
proof -
  have run: "assemble 1500 [\<lparr>content = ''Paris is the capital of France.'', token = 8\<rparr>,
                  \<lparr>content = ''a long passage'', token = 2000\<rparr>]
     = (1, 2008, ''Paris is the capital of France.\<newline>--\<newline>'')"
    by code_simp
  show ?thesis using run token_budget_included [OF run] by simp
qed

text \<open>
  Claim C4, first match above the budget. The context is empty, but the accumulator is
  not 0: it holds the token count of the first row, here 1501.
\<close>

theorem greedy_stop_accumulator_counterexample:
  "\<not> (fst (snd (assemble 1500 [\<lparr>content = ''a long passage'', token = 1501\<rparr>])) = 0)"
  by code_simp

text \<open>
  Claim C4 as amended. For every non-empty list of rows and budget \<open>B\<close>, if the token
  count of the first row exceeds \<open>B\<close> then the loop is left at index 0 with an empty
  context and with the accumulator equal to that token count. On the page (budget 1500)
  this is no error: the turn goes on to send the prompt rendered with the empty context
  to the generation route.
\<close>

theorem greedy_stop_first_match:
  assumes "documents \<noteq> []" and "B < token (hd documents)"
  shows "assemble B documents = (0, token (hd documents), [])
     \<and> (B = 1500 \<and> inputValue s = q \<and> trim q \<noteq> []
          \<and> post_embedding env (replace_newlines q) = Response 200 v
          \<and> rpc_match_documents env v = Some documents
        \<longrightarrow> calls (fst (handleSearch env s)) =
              calls s @ [PostEmbedding (replace_newlines q), RpcMatchDocuments v,
                         PostChat (generatePrompt [] q)])"
proof (intro conjI impI)
  show first: "assemble B documents = (0, token (hd documents), [])"
    using assms by (rule assemble_first_too_big)
  assume h: "B = 1500 \<and> inputValue s = q \<and> trim q \<noteq> []
          \<and> post_embedding env (replace_newlines q) = Response 200 v
          \<and> rpc_match_documents env v = Some documents"
  then have "snd (snd (assemble_documents (rpc_match_documents env v))) = []"
    using first by (simp add: assemble_documents_def)
  then show "calls (fst (handleSearch env s)) =
              calls s @ [PostEmbedding (replace_newlines q), RpcMatchDocuments v,
                         PostChat (generatePrompt [] q)]"
    using handleSearch_embedded_calls [of s q env v] h by simp
qed

text \<open>An instance of claim C4 on concrete data.\<close>

theorem greedy_stop_first_match_witness:
  "[\<lparr>content = ''a long passage'', token = 1501\<rparr>] \<noteq> []
   \<and> 1500 < token (hd [\<lparr>content = ''a long passage'', token = 1501\<rparr>])
   \<and> assemble 1500 [\<lparr>content = ''a long passage'', token = 1501\<rparr>] = (0, 1501, [])
   \<and> inputValue \<lparr>questions = [], answers = [], loading = False, inputValue = ''flying'',
                   toasts = [], calls = []\<rparr> = ''flying''
   \<and> trim ''flying'' \<noteq> []
   \<and> post_embedding \<lparr>post_embedding = (\<lambda>t. Response 200 (Some [1::int])),
         rpc_match_documents = (\<lambda>v. Some [\<lparr>content = ''a long passage'', token = 1501\<rparr>]),
         post_chat = (\<lambda>p. Response 200 ''an answer'')\<rparr> (replace_newlines ''flying'')
       = Response 200 (Some [1])
   \<and> calls (fst (handleSearch
         \<lparr>post_embedding = (\<lambda>t. Response 200 (Some [1::int])),
          rpc_match_documents = (\<lambda>v. Some [\<lparr>content = ''a long passage'', token = 1501\<rparr>]),
          post_chat = (\<lambda>p. Response 200 ''an answer'')\<rparr>
         \<lparr>questions = [], answers = [], loading = False, inputValue = ''flying'',
          toasts = [], calls = []\<rparr>))
       = [PostEmbedding ''flying'', RpcMatchDocuments (Some [1]), PostChat (generatePrompt [] ''flying'')]"
  using greedy_stop_first_match
    [where documents = "[\<lparr>content = ''a long passage'', token = 1501\<rparr>]" and B = 1500
       and s = "\<lparr>questions = [], answers = [], loading = False, inputValue = ''flying'',
                 toasts = [], calls = []\<rparr>"
       and q = "''flying''" and v = "Some [1::int]"
       and env = "\<lparr>post_embedding = (\<lambda>t. Response 200 (Some [1::int])),
          rpc_match_documents = (\<lambda>v. Some [\<lparr>content = ''a long passage'', token = 1501\<rparr>]),
          post_chat = (\<lambda>p. Response 200 ''an answer'')\<rparr>"]
  by (simp add: trim_def is_ws_def replace_newlines_def)

text \<open>
  Claim C5, order preservation. The context is the text of a prefix of the rows, in the
  given order: every row before index \<open>k\<close> fitted within the budget together with the
  rows before it, and the row at index \<open>k\<close>, if there is one, is the first that did not.
  No later row is taken after it.
\<close>

theorem order_preserved:
  assumes "assemble B documents = (k, t, c)"
  shows "k \<le> length documents \<and> c = context_upto documents k
     \<and> (\<forall>j < k. tokens_upto documents (Suc j) \<le> B)
     \<and> (k < length documents \<longrightarrow> B < tokens_upto documents (Suc k))"
  using assemble_inv [OF assms] by (auto split: if_splits)

text \<open>
  An instance of claim C5: the second row does not fit, and the third, which would, is
  not taken.
\<close>

theorem order_preserved_witness:
  "assemble 1500 [\<lparr>content = ''first'', token = 1000\<rparr>, \<lparr>content = ''second'', token = 600\<rparr>,
                  \<lparr>content = ''third'', token = 100\<rparr>]
     = (1, 1600, ''first\<newline>--\<newline>'')
   \<and> ''first\<newline>--\<newline>''
     = context_upto [\<lparr>content = ''first'', token = 1000\<rparr>, \<lparr>content = ''second'', token = 600\<rparr>,
                     \<lparr>content = ''third'', token = 100\<rparr>] 1
   \<and> 1500 < tokens_upto [\<lparr>content = ''first'', token = 1000\<rparr>, \<lparr>content = ''second'', token = 600\<rparr>,
                     \<lparr>content = ''third'', token = 100\<rparr>] (Suc 1)"
proof -
  have run: "assemble 1500 [\<lparr>content = ''first'', token = 1000\<rparr>, \<lparr>content = ''second'', token = 600\<rparr>,
                  \<lparr>content = ''third'', token = 100\<rparr>]
     = (1, 1600, ''first\<newline>--\<newline>'')"
    by code_simp
  show ?thesis using run order_preserved [OF run] by simp
qed

text \<open>
  Claim C8, rendering. For every context and every question, empty ones included, the
  prompt is the persona text, the heading of the context sections, the context as it is,
  the question between its quotes as it is, and the closing line. The first line of the
  text starts in column 0, so \<open>stripIndent\<close> removes no column; only the line break and
  the two spaces at the end are trimmed.
\<close>

theorem render_total:
  \<open>generatePrompt contextText searchText =
     oneLine persona_template
       @ ''\<newline>\<newline>    Context sections:\<newline>    '' @ contextText
       @ ''\<newline>\<newline>    Question: """\<newline>    '' @ searchText
       @ ''\<newline>    """\<newline>\<newline>    Answer as markdown (including related code snippets if available):''
   \<and> oneLine persona_template =
     ''You are a very enthusiastic Dream interpreting expert who loves to help people! Given the following sections from the Dream documentation or make up something people can relate, answer the question using only that information, outputted in markdown format.''\<close>
  using generatePrompt_layout [of contextText searchText] oneLine_persona by simp

text \<open>An instance of claim C8 on concrete data.\<close>

theorem render_total_witness:
  \<open>generatePrompt ''Paris is the capital of France.\<newline>--\<newline>'' ''What is the capital of France?'' =
     ''You are a very enthusiastic Dream interpreting expert who loves to help people! Given the following sections from the Dream documentation or make up something people can relate, answer the question using only that information, outputted in markdown format.\<newline>\<newline>    Context sections:\<newline>    Paris is the capital of France.\<newline>--\<newline>\<newline>\<newline>    Question: """\<newline>    What is the capital of France?\<newline>    """\<newline>\<newline>    Answer as markdown (including related code snippets if available):''\<close>
  using render_total [of "''Paris is the capital of France.\<newline>--\<newline>''" "''What is the capital of France?''"]
  by simp

text \<open>
  Claim C10, blank input. When the input is empty or holds white space only, the turn
  sends no request, shows no toast and leaves questions and answers as they were; the
  input is cleared and loading is false at the end.
\<close>

theorem blank_input_noop:
  assumes "\<forall>c \<in> set (inputValue s). is_ws c"
  shows "handleSearch env s = (s\<lparr>inputValue := [], loading := False\<rparr>, Fulfilled)
     \<and> questions (fst (handleSearch env s)) = questions s
     \<and> answers (fst (handleSearch env s)) = answers s
     \<and> calls (fst (handleSearch env s)) = calls s
     \<and> toasts (fst (handleSearch env s)) = toasts s"
  using handleSearch_blank [OF assms, of env] by simp

text \<open>An instance of claim C10 on concrete data.\<close>

theorem blank_input_noop_witness:
  "inputValue \<lparr>questions = [''earlier''], answers = [''reply''], loading = False,
               inputValue = ''   '', toasts = [], calls = ([] :: int list call list)\<rparr> = ''   ''
   \<and> is_ws (CHR '' '')
   \<and> handleSearch
        \<lparr>post_embedding = (\<lambda>t. Response 200 (Some [1::int])),
         rpc_match_documents = (\<lambda>v. Some []),
         post_chat = (\<lambda>p. Response 200 ''an answer'')\<rparr>
        \<lparr>questions = [''earlier''], answers = [''reply''], loading = False,
         inputValue = ''   '', toasts = [], calls = []\<rparr>
     = (\<lparr>questions = [''earlier''], answers = [''reply''], loading = False,
         inputValue = [], toasts = [], calls = []\<rparr>, Fulfilled)"
  using blank_input_noop
    [where s = "\<lparr>questions = [''earlier''], answers = [''reply''], loading = False,
                 inputValue = ''   '', toasts = [], calls = ([] :: int list call list)\<rparr>"
       and env = "\<lparr>post_embedding = (\<lambda>t. Response 200 (Some [1::int])),
          rpc_match_documents = (\<lambda>v. Some []),
          post_chat = (\<lambda>p. Response 200 ''an answer'')\<rparr>"]
  by (simp add: is_ws_def)

text \<open>
  Claim C7, failure of the embedding call. When \<open>/embedding\<close> answers with a status other
  than 200, the only request of the turn is the embedding request: \<open>match_documents\<close> and
  \<open>/chat\<close> are not called, no answer is appended, and the generic notice is shown.
\<close>

theorem embedding_failure_halts:
  assumes "inputValue s = q" and "trim q \<noteq> []"
    and "post_embedding env (replace_newlines q) = Response status body" and "status \<noteq> 200"
  shows "handleSearch env s =
     (s\<lparr>questions := questions s @ [q], loading := False, inputValue := [],
        toasts := toasts s @ [\<lparr>title = ''Fail to create embedding'', description = ''Something went wrong''\<rparr>],
        calls := calls s @ [PostEmbedding (replace_newlines q)]\<rparr>, Fulfilled)"
  using assms by (rule handleSearch_embedding_failed)

text \<open>An instance of claim C7 on concrete data.\<close>

theorem embedding_failure_halts_witness:
  "inputValue \<lparr>questions = [''earlier''], answers = [''reply''], loading = False,
               inputValue = ''flying'', toasts = [], calls = []\<rparr> = ''flying''
   \<and> trim ''flying'' \<noteq> []
   \<and> post_embedding \<lparr>post_embedding = (\<lambda>t. Response 500 (None :: int list option)),
         rpc_match_documents = (\<lambda>v. Some []),
         post_chat = (\<lambda>p. Response 200 ''an answer'')\<rparr> (replace_newlines ''flying'')
       = Response 500 None
   \<and> (500::nat) \<noteq> 200
   \<and> handleSearch
        \<lparr>post_embedding = (\<lambda>t. Response 500 (None :: int list option)),
         rpc_match_documents = (\<lambda>v. Some []),
         post_chat = (\<lambda>p. Response 200 ''an answer'')\<rparr>
        \<lparr>questions = [''earlier''], answers = [''reply''], loading = False,
         inputValue = ''flying'', toasts = [], calls = []\<rparr>
     = (\<lparr>questions = [''earlier'', ''flying''], answers = [''reply''], loading = False,
         inputValue = [],
         toasts = [\<lparr>title = ''Fail to create embedding'', description = ''Something went wrong''\<rparr>],
         calls = [PostEmbedding ''flying'']\<rparr>, Fulfilled)"
  using embedding_failure_halts
    [where s = "\<lparr>questions = [''earlier''], answers = [''reply''], loading = False,
                 inputValue = ''flying'', toasts = [], calls = []\<rparr>"
       and q = "''flying''" and status = 500 and body = "None :: int list option"
       and env = "\<lparr>post_embedding = (\<lambda>t. Response 500 (None :: int list option)),
          rpc_match_documents = (\<lambda>v. Some []),
          post_chat = (\<lambda>p. Response 200 ''an answer'')\<rparr>"]
  by (simp add: trim_def is_ws_def replace_newlines_def)

text \<open>
  Claim C2, failure of the generation call. The claim asks for a fallback answer beside
  the question of a failed turn. When \<open>/chat\<close> answers with a status other than 200,
  \<open>generateAnswer\<close> raises the toast and appends nothing to \<open>answers\<close>, while the page
  shows \<open>answers[index]\<close> under \<open>questions[index]\<close>. Here a first turn fails at the
  generation call and a second one succeeds: after the first turn there is one question
  and no answer, and after the second the only answer, the one to the second question,
  stands at index 0, under the first question.
\<close>

theorem generation_failure_misaligned:
  "handleSearch
     \<lparr>post_embedding = (\<lambda>t. Response 200 (Some [1::int])),
      rpc_match_documents = (\<lambda>v. Some []),
      post_chat = (\<lambda>p. Response 400 [])\<rparr>
     \<lparr>questions = [], answers = [], loading = False,
      inputValue = ''first'', toasts = [], calls = []\<rparr>
   = (\<lparr>questions = [''first''], answers = [], loading = False, inputValue = [],
       toasts = [\<lparr>title = ''Fail to create embedding'', description = ''Something went wrong''\<rparr>],
       calls = [PostEmbedding ''first'', RpcMatchDocuments (Some [1]),
                PostChat (generatePrompt [] ''first'')]\<rparr>, Fulfilled)
   \<and> questions (fst (handleSearch
        \<lparr>post_embedding = (\<lambda>t. Response 200 (Some [1::int])),
         rpc_match_documents = (\<lambda>v. Some []),
         post_chat = (\<lambda>p. Response 200 ''answer to second'')\<rparr>
        \<lparr>questions = [''first''], answers = [], loading = False, inputValue = ''second'',
         toasts = [\<lparr>title = ''Fail to create embedding'', description = ''Something went wrong''\<rparr>],
         calls = [PostEmbedding ''first'', RpcMatchDocuments (Some [1]),
                  PostChat (generatePrompt [] ''first'')]\<rparr>))
     = [''first'', ''second'']
   \<and> answers (fst (handleSearch
        \<lparr>post_embedding = (\<lambda>t. Response 200 (Some [1::int])),
         rpc_match_documents = (\<lambda>v. Some []),
         post_chat = (\<lambda>p. Response 200 ''answer to second'')\<rparr>
        \<lparr>questions = [''first''], answers = [], loading = False, inputValue = ''second'',
         toasts = [\<lparr>title = ''Fail to create embedding'', description = ''Something went wrong''\<rparr>],
         calls = [PostEmbedding ''first'', RpcMatchDocuments (Some [1]),
                  PostChat (generatePrompt [] ''first'')]\<rparr>))
     = [''answer to second'']"
proof -
  have first: "handleSearch
     \<lparr>post_embedding = (\<lambda>t. Response 200 (Some [1::int])),
      rpc_match_documents = (\<lambda>v. Some []),
      post_chat = (\<lambda>p. Response 400 [])\<rparr>
     \<lparr>questions = [], answers = [], loading = False,
      inputValue = ''first'', toasts = [], calls = []\<rparr>
   = (\<lparr>questions = [''first''], answers = [], loading = False, inputValue = [],
       toasts = [\<lparr>title = ''Fail to create embedding'', description = ''Something went wrong''\<rparr>],
       calls = [PostEmbedding ''first'', RpcMatchDocuments (Some [1]),
                PostChat (generatePrompt [] ''first'')]\<rparr>, Fulfilled)"
    using handleSearch_generation_failed
      [where s = "\<lparr>questions = [], answers = [], loading = False,
                   inputValue = ''first'', toasts = [], calls = []\<rparr>"
         and q = "''first''" and v = "Some [1::int]" and status = 400 and body = "[]"
         and env = "\<lparr>post_embedding = (\<lambda>t. Response 200 (Some [1::int])),
            rpc_match_documents = (\<lambda>v. Some []),
            post_chat = (\<lambda>p. Response 400 [])\<rparr>"]
    by (simp add: trim_def is_ws_def replace_newlines_def assemble_documents_def assemble_Nil)
  have second: "handleSearch
        \<lparr>post_embedding = (\<lambda>t. Response 200 (Some [1::int])),
         rpc_match_documents = (\<lambda>v. Some []),
         post_chat = (\<lambda>p. Response 200 ''answer to second'')\<rparr>
        \<lparr>questions = [''first''], answers = [], loading = False, inputValue = ''second'',
         toasts = [\<lparr>title = ''Fail to create embedding'', description = ''Something went wrong''\<rparr>],
         calls = [PostEmbedding ''first'', RpcMatchDocuments (Some [1]),
                  PostChat (generatePrompt [] ''first'')]\<rparr>
     = (\<lparr>questions = [''first'', ''second''], answers = [''answer to second''],
         loading = False, inputValue = [],
         toasts = [\<lparr>title = ''Fail to create embedding'', description = ''Something went wrong''\<rparr>],
         calls = [PostEmbedding ''first'', RpcMatchDocuments (Some [1]),
                  PostChat (generatePrompt [] ''first''),
                  PostEmbedding ''second'', RpcMatchDocuments (Some [1]),
                  PostChat (generatePrompt [] ''second'')]\<rparr>, Fulfilled)"
    using handleSearch_generated
      [where s = "\<lparr>questions = [''first''], answers = [], loading = False, inputValue = ''second'',
           toasts = [\<lparr>title = ''Fail to create embedding'', description = ''Something went wrong''\<rparr>],
           calls = [PostEmbedding ''first'', RpcMatchDocuments (Some [1::int]),
                    PostChat (generatePrompt [] ''first'')]\<rparr>"
         and q = "''second''" and v = "Some [1::int]" and a = "''answer to second''"
         and env = "\<lparr>post_embedding = (\<lambda>t. Response 200 (Some [1::int])),
            rpc_match_documents = (\<lambda>v. Some []),
            post_chat = (\<lambda>p. Response 200 ''answer to second'')\<rparr>"]
    by (simp add: trim_def is_ws_def replace_newlines_def assemble_documents_def assemble_Nil)
  show ?thesis
    unfolding second using first by simp
qed

text \<open>
  Claim C6, empty result. When the embedding call succeeds and \<open>match_documents\<close>
  returns no row, the loop yields the empty context, the prompt is rendered with it and
  sent to the generation route; when that route answers 200 the turn ends with the answer
  appended, the input cleared and loading false.
\<close>

theorem empty_result_tolerated:
  assumes "inputValue s = q" and "trim q \<noteq> []"
    and "post_embedding env (replace_newlines q) = Response 200 v"
    and "rpc_match_documents env v = Some []"
  shows "assemble_documents (rpc_match_documents env v) = (0, 0, [])
     \<and> calls (fst (handleSearch env s)) =
         calls s @ [PostEmbedding (replace_newlines q), RpcMatchDocuments v,
                    PostChat (generatePrompt [] q)]
     \<and> (post_chat env (generatePrompt [] q) = Response 200 a \<longrightarrow>
         handleSearch env s =
           (s\<lparr>questions := questions s @ [q], answers := answers s @ [a], loading := False,
              inputValue := [],
              calls := calls s @ [PostEmbedding (replace_newlines q), RpcMatchDocuments v,
                                  PostChat (generatePrompt [] q)]\<rparr>,
            Fulfilled))"
proof -
  have e: "assemble_documents (rpc_match_documents env v) = (0, 0, [])"
    using assms(4) by (simp add: assemble_documents_def assemble_Nil)
  then have c: "snd (snd (assemble_documents (rpc_match_documents env v))) = []" by simp
  show ?thesis
    using e handleSearch_embedded_calls [OF assms(1,2,3)] handleSearch_generated [OF assms(1,2,3), of a]
    unfolding c by simp
qed

text \<open>An instance of claim C6 on concrete data.\<close>

theorem empty_result_tolerated_witness:
  "inputValue \<lparr>questions = [], answers = [], loading = False, inputValue = ''flying'',
               toasts = [], calls = []\<rparr> = ''flying''
   \<and> trim ''flying'' \<noteq> []
   \<and> post_embedding \<lparr>post_embedding = (\<lambda>t. Response 200 (Some [1::int])),
         rpc_match_documents = (\<lambda>v. Some []),
         post_chat = (\<lambda>p. Response 200 ''an answer'')\<rparr> (replace_newlines ''flying'')
       = Response 200 (Some [1])
   \<and> rpc_match_documents \<lparr>post_embedding = (\<lambda>t. Response 200 (Some [1::int])),
         rpc_match_documents = (\<lambda>v. Some []),
         post_chat = (\<lambda>p. Response 200 ''an answer'')\<rparr> (Some [1]) = Some []
   \<and> handleSearch
        \<lparr>post_embedding = (\<lambda>t. Response 200 (Some [1::int])),
         rpc_match_documents = (\<lambda>v. Some []),
         post_chat = (\<lambda>p. Response 200 ''an answer'')\<rparr>
        \<lparr>questions = [], answers = [], loading = False, inputValue = ''flying'',
         toasts = [], calls = []\<rparr>
     = (\<lparr>questions = [''flying''], answers = [''an answer''], loading = False, inputValue = [],
         toasts = [],
         calls = [PostEmbedding ''flying'', RpcMatchDocuments (Some [1]),
                  PostChat (generatePrompt [] ''flying'')]\<rparr>, Fulfilled)"
  using empty_result_tolerated
    [where s = "\<lparr>questions = [], answers = [], loading = False, inputValue = ''flying'',
                 toasts = [], calls = []\<rparr>"
       and q = "''flying''" and v = "Some [1::int]" and a = "''an answer''"
       and env = "\<lparr>post_embedding = (\<lambda>t. Response 200 (Some [1::int])),
          rpc_match_documents = (\<lambda>v. Some []),
          post_chat = (\<lambda>p. Response 200 ''an answer'')\<rparr>"]
  by (simp add: trim_def is_ws_def replace_newlines_def)

text \<open>
  Claim C9, determinism. Two turns that start in any two states of the page and talk to
  any two backends send the same prompt to the generation route whenever the question is
  the same and the rows returned are the same; the prompt is \<open>generatePrompt\<close> of the
  assembled context and the question, and depends on nothing else.
\<close>

theorem same_question_same_matches_same_prompt:
  assumes "inputValue s1 = q" and "inputValue s2 = q" and "trim q \<noteq> []"
    and "post_embedding env1 (replace_newlines q) = Response 200 v1"
    and "post_embedding env2 (replace_newlines q) = Response 200 v2"
    and "rpc_match_documents env1 v1 = rpc_match_documents env2 v2"
  shows "last (calls (fst (handleSearch env1 s1))) = last (calls (fst (handleSearch env2 s2)))
     \<and> last (calls (fst (handleSearch env1 s1))) =
         PostChat (generatePrompt (snd (snd (assemble_documents (rpc_match_documents env1 v1)))) q)"
  using handleSearch_embedded_calls [OF assms(1,3,4)] handleSearch_embedded_calls [OF assms(2,3,5)]
    assms(6) by simp

text \<open>An instance of claim C9 on concrete data.\<close>

theorem same_question_same_matches_same_prompt_witness:
  "inputValue \<lparr>questions = [], answers = [], loading = False,
               inputValue = ''flying'', toasts = [], calls = ([] :: int list call list)\<rparr> = ''flying''
   \<and> inputValue \<lparr>questions = [''earlier''], answers = [''reply''], loading = True,
               inputValue = ''flying'', toasts = [], calls = [PostChat ''old'' :: int list call]\<rparr> = ''flying''
   \<and> trim ''flying'' \<noteq> []
   \<and> rpc_match_documents \<lparr>post_embedding = (\<lambda>t. Response 200 (Some [1::int])),
         rpc_match_documents = (\<lambda>v. Some [\<lparr>content = '' wings '', token = 3\<rparr>]),
         post_chat = (\<lambda>p. Response 200 ''an answer'')\<rparr> (Some [1])
     = rpc_match_documents \<lparr>post_embedding = (\<lambda>t. Response 200 (Some [2::int])),
         rpc_match_documents = (\<lambda>v. Some [\<lparr>content = '' wings '', token = 3\<rparr>]),
         post_chat = (\<lambda>p. Rejected)\<rparr> (Some [2])
   \<and> last (calls (fst (handleSearch
         \<lparr>post_embedding = (\<lambda>t. Response 200 (Some [1::int])),
          rpc_match_documents = (\<lambda>v. Some [\<lparr>content = '' wings '', token = 3\<rparr>]),
          post_chat = (\<lambda>p. Response 200 ''an answer'')\<rparr>
         \<lparr>questions = [], answers = [], loading = False,
          inputValue = ''flying'', toasts = [], calls = []\<rparr>)))
     = last (calls (fst (handleSearch
         \<lparr>post_embedding = (\<lambda>t. Response 200 (Some [2::int])),
          rpc_match_documents = (\<lambda>v. Some [\<lparr>content = '' wings '', token = 3\<rparr>]),
          post_chat = (\<lambda>p. Rejected)\<rparr>
         \<lparr>questions = [''earlier''], answers = [''reply''], loading = True,
          inputValue = ''flying'', toasts = [], calls = [PostChat ''old'']\<rparr>)))"
  using same_question_same_matches_same_prompt
    [where ?s1.0 = "\<lparr>questions = [], answers = [], loading = False,
                 inputValue = ''flying'', toasts = [], calls = ([] :: int list call list)\<rparr>"
       and ?s2.0 = "\<lparr>questions = [''earlier''], answers = [''reply''], loading = True,
               inputValue = ''flying'', toasts = [], calls = [PostChat ''old'' :: int list call]\<rparr>"
       and q = "''flying''" and ?v1.0 = "Some [1::int]" and ?v2.0 = "Some [2::int]"
       and ?env1.0 = "\<lparr>post_embedding = (\<lambda>t. Response 200 (Some [1::int])),
          rpc_match_documents = (\<lambda>v. Some [\<lparr>content = '' wings '', token = 3\<rparr>]),
          post_chat = (\<lambda>p. Response 200 ''an answer'')\<rparr>"
       and ?env2.0 = "\<lparr>post_embedding = (\<lambda>t. Response 200 (Some [2::int])),
          rpc_match_documents = (\<lambda>v. Some [\<lparr>content = '' wings '', token = 3\<rparr>]),
          post_chat = (\<lambda>p. Rejected)\<rparr>"]
  by (simp add: trim_def is_ws_def replace_newlines_def)

text \<open>
  Claim C3, one model for vector and token count. The route counts tokens with the model
  \<open>gemini-pro\<close> and embeds with the model \<open>embedding-001\<close>: the calls of one successful
  request go to two models.
\<close>

theorem embedding_same_model_counterexample:
  "\<not> same_model (snd (snd (embedding_POST
       \<lparr>countTokens = (\<lambda>m t. Some (length t)), embedContent = (\<lambda>m t. Some t)\<rparr>
       (Some ()) (Some ''hi''))))"
  by (simp add: embedding_POST_def same_model_def)

text \<open>
  Claim C3 as amended. Whenever the route answers 200 for a text, the token count is the
  one \<open>gemini-pro\<close> counted for that text and the vector is the one \<open>embedding-001\<close>
  produced for it; both models are fixed in the route.
\<close>

theorem embedding_two_models:
  assumes "embedding_POST genAI data (Some text) = (200, TokenEmbedding n e, cs)"
  shows "countTokens genAI ''gemini-pro'' text = Some n
     \<and> embedContent genAI ''embedding-001'' text = Some e
     \<and> cs = [CountTokens ''gemini-pro'' text, EmbedContent ''embedding-001'' text]"
  using assms by (auto simp: embedding_POST_def split: if_splits option.splits)

text \<open>An instance of claim C3 on concrete data.\<close>

theorem embedding_two_models_witness:
  "embedding_POST \<lparr>countTokens = (\<lambda>m t. if m = ''gemini-pro'' then Some 2 else None),
                   embedContent = (\<lambda>m t. if m = ''embedding-001'' then Some [1::int] else None)\<rparr>
       (Some ()) (Some ''hi'')
     = (200, TokenEmbedding 2 [1], [CountTokens ''gemini-pro'' ''hi'', EmbedContent ''embedding-001'' ''hi''])
   \<and> countTokens \<lparr>countTokens = (\<lambda>m t. if m = ''gemini-pro'' then Some 2 else None),
                   embedContent = (\<lambda>m t. if m = ''embedding-001'' then Some [1::int] else None)\<rparr>
        ''gemini-pro'' ''hi'' = Some 2"
proof -
  have run: "embedding_POST \<lparr>countTokens = (\<lambda>m t. if m = ''gemini-pro'' then Some 2 else None),
                   embedContent = (\<lambda>m t. if m = ''embedding-001'' then Some [1::int] else None)\<rparr>
       (Some ()) (Some ''hi'')
     = (200, TokenEmbedding 2 [1], [CountTokens ''gemini-pro'' ''hi'', EmbedContent ''embedding-001'' ''hi''])"
    by (simp add: embedding_POST_def)
  show ?thesis using run embedding_two_models [OF run] by simp
qed

end
